theory Spec2Isabelle
  imports Main
begin

section \<open>The formula model of \<open>sat_solver.py\<close>\<close>

text \<open>
  The grammar of the source, \<open>e ::= Literal(x, b) | And(e1, e2) | Or(e1, e2)\<close>, is a
  closed tagged union. The type of variables is left abstract, as the source leaves it.
\<close>

datatype 'v expr =
    Literal 'v bool
  | And "'v expr" "'v expr"
  | Or "'v expr" "'v expr"

text \<open>
  \<open>Binop.__str__\<close> is \<open>"({} {} {})".format(str(left), op_string, str(right))\<close>; the
  subclasses \<open>And\<close> and \<open>Or\<close> fix \<open>op_string\<close> in their constructors.
\<close>

definition Binop_str :: "string \<Rightarrow> string \<Rightarrow> string \<Rightarrow> string" where
  "Binop_str l op_string r = ''('' @ l @ '' '' @ op_string @ '' '' @ r @ '')''"

definition And_op_string :: string where
  "And_op_string = ''&&''"

definition Or_op_string :: string where
  "Or_op_string = ''||''"

text \<open>
  \<open>Literal.__str__\<close> returns \<open>self.variable\<close> itself when the literal is positive, so
  rendering is defined for variables that are strings (as in the tests of the source).
\<close>

fun str_expr :: "string expr \<Rightarrow> string" where
  "str_expr (Literal x b) = (if b then x else ''!'' @ x)"
| "str_expr (And l r) = Binop_str (str_expr l) And_op_string (str_expr r)"
| "str_expr (Or l r) = Binop_str (str_expr l) Or_op_string (str_expr r)"


section \<open>The binding store: \<open>ImmutableMap\<close>\<close>

text \<open>
  An \<open>ImmutableMap\<close> wraps one Python dict from variables to booleans. \<open>add\<close> copies the
  dict, writes the new key into the copy and wraps the copy; \<open>get\<close> is \<open>self.mapping[key]\<close>,
  which raises \<open>KeyError\<close> on a missing key.
\<close>

datatype py_error = KeyError

type_synonym 'v ImmutableMap = "'v \<rightharpoonup> bool"

definition add :: "'v ImmutableMap \<Rightarrow> 'v \<Rightarrow> bool \<Rightarrow> 'v ImmutableMap" where
  "add m k v = m(k \<mapsto> v)"

definition contains :: "'v ImmutableMap \<Rightarrow> 'v \<Rightarrow> bool" where
  "contains m k = (k \<in> dom m)"

definition get :: "'v ImmutableMap \<Rightarrow> 'v \<Rightarrow> py_error + bool" where
  "get m k = (case m k of None \<Rightarrow> Inl KeyError | Some v \<Rightarrow> Inr v)"

text \<open>
  \<open>add_literal\<close> returns the map, a new map, or Python's \<open>None\<close> (the conflict signal).
  The result type keeps the three outcomes apart: \<open>Inl e\<close> is a raised exception,
  \<open>Inr None\<close> is the returned \<open>None\<close>, \<open>Inr (Some m)\<close> is a returned map.
\<close>

definition add_literal ::
  "'v ImmutableMap \<Rightarrow> 'v \<Rightarrow> bool \<Rightarrow> py_error + 'v ImmutableMap option" where
  "add_literal immutable_map x boolean =
     (if contains immutable_map x then
        (case get immutable_map x of
           Inl e \<Rightarrow> Inl e
         | Inr v \<Rightarrow> if v = boolean then Inr (Some immutable_map) else Inr None)
      else Inr (Some (add immutable_map x boolean)))"


subsection \<open>The same operations on a heap of dict objects\<close>

text \<open>
  To speak about the old store object after an insertion, the dicts are placed in a heap:
  a list of dict contents addressed by position, a reference being an index. The
  constructor \<open>ImmutableMap(new_mapping)\<close> keeps the reference it is given, so a store
  object is identified with the dict it wraps. \<open>dict.copy()\<close> allocates a fresh object at
  the end of the heap and \<open>new_mapping[key] = value\<close> writes into that object in place.
\<close>

type_synonym 'v heap = "'v ImmutableMap list"

definition dict_copy :: "'v heap \<Rightarrow> nat \<Rightarrow> 'v heap \<times> nat" where
  "dict_copy h p = (h @ [h ! p], length h)"

definition dict_setitem :: "'v heap \<Rightarrow> nat \<Rightarrow> 'v \<Rightarrow> bool \<Rightarrow> 'v heap" where
  "dict_setitem h p k v = h[p := (h ! p)(k \<mapsto> v)]"

definition add_h :: "'v heap \<Rightarrow> nat \<Rightarrow> 'v \<Rightarrow> bool \<Rightarrow> 'v heap \<times> nat" where
  "add_h h self k v =
     (let (h1, new_mapping) = dict_copy h self;
          h2 = dict_setitem h1 new_mapping k v
      in (h2, new_mapping))"

definition add_literal_h ::
  "'v heap \<Rightarrow> nat \<Rightarrow> 'v \<Rightarrow> bool \<Rightarrow> 'v heap \<times> (py_error + nat option)" where
  "add_literal_h h immutable_map x boolean =
     (if contains (h ! immutable_map) x then
        (case get (h ! immutable_map) x of
           Inl e \<Rightarrow> (h, Inl e)
         | Inr v \<Rightarrow> if v = boolean then (h, Inr (Some immutable_map)) else (h, Inr None))
      else (let (h', p) = add_h h immutable_map x boolean in (h', Inr (Some p))))"


section \<open>The tableau solver\<close>

text \<open>
  The worklist \<open>Nil\<close>/\<open>Cons\<close> of the source is a HOL list. The measure of the recursion
  counts every node of every goal: literals as well as connectives.
\<close>

fun nodes :: "'v expr \<Rightarrow> nat" where
  "nodes (Literal x b) = 1"
| "nodes (And l r) = 1 + nodes l + nodes r"
| "nodes (Or l r) = 1 + nodes l + nodes r"

definition goals_nodes :: "'v expr list \<Rightarrow> nat" where
  "goals_nodes goals = sum_list (map nodes goals)"

function solve ::
  "'v expr list \<Rightarrow> 'v ImmutableMap \<Rightarrow> py_error + 'v ImmutableMap option" where
  "solve [] literals = Inr (Some literals)"
| "solve (Literal x b # tail) literals =
     (case add_literal literals x b of
        Inl e \<Rightarrow> Inl e
      | Inr None \<Rightarrow> Inr None
      | Inr (Some result) \<Rightarrow> solve tail result)"
| "solve (And l r # tail) literals = solve (l # r # tail) literals"
| "solve (Or l r # tail) literals =
     (case solve (l # tail) literals of
        Inl e \<Rightarrow> Inl e
      | Inr None \<Rightarrow> solve (r # tail) literals
      | Inr (Some left_side) \<Rightarrow> Inr (Some left_side))"
  by pat_completeness auto
termination
  by (relation "measure (\<lambda>(goals, literals). goals_nodes goals)")
     (auto simp: goals_nodes_def)

definition solve_one :: "'v expr \<Rightarrow> py_error + 'v ImmutableMap option" where
  "solve_one formula = solve [formula] Map.empty"


text \<open>
  The same procedure with a bound on the depth of the call stack: \<open>None\<close> means that the
  bound was reached before the call returned. Each recursive call of the source is one
  level deeper.
\<close>

fun solve_fuel ::
  "nat \<Rightarrow> 'v expr list \<Rightarrow> 'v ImmutableMap \<Rightarrow> (py_error + 'v ImmutableMap option) option" where
  "solve_fuel 0 goals literals = None"
| "solve_fuel (Suc n) [] literals = Some (Inr (Some literals))"
| "solve_fuel (Suc n) (Literal x b # tail) literals =
     (case add_literal literals x b of
        Inl e \<Rightarrow> Some (Inl e)
      | Inr None \<Rightarrow> Some (Inr None)
      | Inr (Some result) \<Rightarrow> solve_fuel n tail result)"
| "solve_fuel (Suc n) (And l r # tail) literals = solve_fuel n (l # r # tail) literals"
| "solve_fuel (Suc n) (Or l r # tail) literals =
     (case solve_fuel n (l # tail) literals of
        None \<Rightarrow> None
      | Some (Inl e) \<Rightarrow> Some (Inl e)
      | Some (Inr None) \<Rightarrow> solve_fuel n (r # tail) literals
      | Some (Inr (Some left_side)) \<Rightarrow> Some (Inr (Some left_side)))"

text \<open>
  The recursive calls that one activation \<open>solve(goals, literals)\<close> makes itself, in the
  order in which it makes them, each with its two arguments. The second call of the
  disjunction case is made only when the first one returned \<open>None\<close>.
\<close>

fun solve_calls ::
  "'v expr list \<Rightarrow> 'v ImmutableMap \<Rightarrow> ('v expr list \<times> 'v ImmutableMap) list" where
  "solve_calls [] literals = []"
| "solve_calls (Literal x b # tail) literals =
     (case add_literal literals x b of
        Inl e \<Rightarrow> []
      | Inr None \<Rightarrow> []
      | Inr (Some result) \<Rightarrow> [(tail, result)])"
| "solve_calls (And l r # tail) literals = [(l # r # tail, literals)]"
| "solve_calls (Or l r # tail) literals =
     (l # tail, literals) #
     (case solve (l # tail) literals of
        Inl e \<Rightarrow> []
      | Inr None \<Rightarrow> [(r # tail, literals)]
      | Inr (Some left_side) \<Rightarrow> [])"

text \<open>The number of \<open>And\<close>/\<open>Or\<close> nodes of a formula and of a worklist.\<close>

fun connectives :: "'v expr \<Rightarrow> nat" where
  "connectives (Literal x b) = 0"
| "connectives (And l r) = 1 + connectives l + connectives r"
| "connectives (Or l r) = 1 + connectives l + connectives r"

definition goals_connectives :: "'v expr list \<Rightarrow> nat" where
  "goals_connectives goals = sum_list (map connectives goals)"

text \<open>The variables that occur in a formula and in a worklist.\<close>

fun vars :: "'v expr \<Rightarrow> 'v set" where
  "vars (Literal x b) = {x}"
| "vars (And l r) = vars l \<union> vars r"
| "vars (Or l r) = vars l \<union> vars r"

definition goals_vars :: "'v expr list \<Rightarrow> 'v set" where
  "goals_vars goals = (\<Union>g \<in> set goals. vars g)"

text \<open>
  The standard semantics of the three connectives under a total valuation, and what it
  means for a total valuation to complete a store: it gives every bound variable the
  value the store records, and is free on the others.
\<close>

fun holds :: "('v \<Rightarrow> bool) \<Rightarrow> 'v expr \<Rightarrow> bool" where
  "holds val (Literal x b) = (val x = b)"
| "holds val (And l r) = (holds val l \<and> holds val r)"
| "holds val (Or l r) = (holds val l \<or> holds val r)"

definition completes :: "('v \<Rightarrow> bool) \<Rightarrow> 'v ImmutableMap \<Rightarrow> bool" where
  "completes val m = (\<forall>x b. m x = Some b \<longrightarrow> val x = b)"


section \<open>The ground evaluator of \<open>boolean_evaluator.py\<close>\<close>

text \<open>
  The grammar of this module is \<open>e ::= True | False | And(e1, e2) | Or(e1, e2)\<close>, with
  classes \<open>And\<close> and \<open>Or\<close> of its own. \<open>eval_expr\<close> returns a Python value that is
  \<open>True\<close>, \<open>False\<close> or, where the function body ends without a \<open>return\<close>, \<open>None\<close>:
  the result is a \<open>bool option\<close> in which \<open>None\<close> is Python's \<open>None\<close>. The comparisons
  \<open>None == True\<close> and \<open>None == False\<close> are both false in Python.
\<close>

datatype bexpr =
    Bool bool
  | BAnd bexpr bexpr
  | BOr bexpr bexpr

fun eval_expr :: "bexpr \<Rightarrow> bool option" where
  "eval_expr (Bool b) = (if b = True then Some True else Some False)"
| "eval_expr (BAnd l r) = (if eval_expr l = Some True then eval_expr r else None)"
| "eval_expr (BOr l r) = (if eval_expr l = Some False then eval_expr r else Some True)"

text \<open>Python's truth value of a result: \<open>None\<close> and \<open>False\<close> are falsy.\<close>

definition truthy :: "bool option \<Rightarrow> bool" where
  "truthy r = (r = Some True)"

text \<open>The standard meaning of a ground expression, which the documentation promises.\<close>

fun ground_value :: "bexpr \<Rightarrow> bool" where
  "ground_value (Bool b) = b"
| "ground_value (BAnd l r) = (ground_value l \<and> ground_value r)"
| "ground_value (BOr l r) = (ground_value l \<or> ground_value r)"


section \<open>Properties of the binding store\<close>

lemma add_literal_no_error: "add_literal m x b \<noteq> Inl e"
  by (auto simp: add_literal_def contains_def get_def split: option.splits)

lemma add_literal_Some:
  assumes "add_literal m x b = Inr (Some m')"
  shows "m' x = Some b" and "m \<subseteq>\<^sub>m m'" and "dom m' = insert x (dom m)"
  using assms
  by (auto simp: add_literal_def contains_def get_def add_def map_le_def
           split: if_splits option.splits)

text \<open>
  Claim C4 (conflict-checked assignment). On a store that binds \<open>x\<close> to the opposite value
  \<open>add_literal\<close> returns \<open>None\<close>; on a store that binds \<open>x\<close> to the same value it returns
  that store; on a store that does not bind \<open>x\<close> it returns a store that binds \<open>x\<close> to the
  value and agrees with the old store everywhere else. On the heap, every object that
  existed before the call, the old store among them, has the content it had before, and
  the outcome is the one of \<open>add_literal\<close> on the content of the old store.
\<close>

theorem add_literal_cases:
  "(m x = Some (\<not> v) \<longrightarrow> add_literal m x v = Inr None)
   \<and> (m x = Some v \<longrightarrow> add_literal m x v = Inr (Some m))
   \<and> (m x = None \<longrightarrow>
        (\<exists>m'. add_literal m x v = Inr (Some m') \<and> m' x = Some v
              \<and> (\<forall>y. y \<noteq> x \<longrightarrow> m' y = m y)))
   \<and> (p < length h \<longrightarrow>
        (case add_literal_h h p x v of
           (h', r) \<Rightarrow>
             (\<forall>q < length h. h' ! q = h ! q)
             \<and> (case r of
                  Inl e \<Rightarrow> False
                | Inr None \<Rightarrow> add_literal (h ! p) x v = Inr None
                | Inr (Some p') \<Rightarrow>
                    p' < length h' \<and> add_literal (h ! p) x v = Inr (Some (h' ! p')))))"
proof (intro conjI impI)
  assume "m x = Some (\<not> v)"
  then show "add_literal m x v = Inr None"
    by (auto simp: add_literal_def contains_def get_def)
next
  assume "m x = Some v"
  then show "add_literal m x v = Inr (Some m)"
    by (auto simp: add_literal_def contains_def get_def)
next
  assume "m x = None"
  then have "add_literal m x v = Inr (Some (m(x \<mapsto> v)))"
    by (auto simp: add_literal_def contains_def add_def)
  then show "\<exists>m'. add_literal m x v = Inr (Some m') \<and> m' x = Some v
              \<and> (\<forall>y. y \<noteq> x \<longrightarrow> m' y = m y)"
    by simp
next
  assume p: "p < length h"
  show "case add_literal_h h p x v of
           (h', r) \<Rightarrow>
             (\<forall>q < length h. h' ! q = h ! q)
             \<and> (case r of
                  Inl e \<Rightarrow> False
                | Inr None \<Rightarrow> add_literal (h ! p) x v = Inr None
                | Inr (Some p') \<Rightarrow>
                    p' < length h' \<and> add_literal (h ! p) x v = Inr (Some (h' ! p')))"
  proof (cases "contains (h ! p) x")
    case True
    then obtain w where w: "(h ! p) x = Some w" by (auto simp: contains_def)
    with True p show ?thesis
      by (simp add: add_literal_h_def add_literal_def get_def)
  next
    case False
    then show ?thesis
      by (simp add: add_literal_h_def add_literal_def add_h_def dict_copy_def
            dict_setitem_def add_def nth_append)
  qed
qed

theorem add_literal_cases_witness:
  "add_literal [''x'' \<mapsto> True] ''x'' False = Inr None
   \<and> add_literal [''x'' \<mapsto> True] ''x'' True = Inr (Some [''x'' \<mapsto> True])
   \<and> (\<exists>m'. add_literal [''y'' \<mapsto> False] ''x'' True = Inr (Some m') \<and> m' ''x'' = Some True
          \<and> (\<forall>y. y \<noteq> ''x'' \<longrightarrow> m' y = [''y'' \<mapsto> False] y))
   \<and> (case add_literal_h [[''y'' \<mapsto> False]] 0 ''x'' True of
         (h', r) \<Rightarrow> h' ! 0 = [''y'' \<mapsto> False] \<and> r = Inr (Some 1))"
proof -
  have a: "[''x'' \<mapsto> True] ''x'' = Some (\<not> False)" by simp
  have b: "[''x'' \<mapsto> True] ''x'' = Some True" by simp
  have c: "[''y'' \<mapsto> False] ''x'' = None" by simp
  have d: "(0::nat) < length [[''y'' \<mapsto> False]]" by simp
  note t1 = add_literal_cases [of "[''x'' \<mapsto> True]" "''x''" False 0 "[]", THEN conjunct1, rule_format, OF a]
  note t2 = add_literal_cases [of "[''x'' \<mapsto> True]" "''x''" True 0 "[]", THEN conjunct2, THEN conjunct1, rule_format, OF b]
  note t3 = add_literal_cases [of "[''y'' \<mapsto> False]" "''x''" True 0 "[]", THEN conjunct2, THEN conjunct2, THEN conjunct1, rule_format, OF c]
  note t4 = add_literal_cases [of "[''y'' \<mapsto> False]" "''x''" True 0 "[[''y'' \<mapsto> False]]", THEN conjunct2, THEN conjunct2, THEN conjunct2, rule_format, OF d]
  have e: "add_literal_h [[''y'' \<mapsto> False]] 0 ''x'' True
           = ([[''y'' \<mapsto> False], [''y'' \<mapsto> False, ''x'' \<mapsto> True]], Inr (Some 1))"
    by (simp add: add_literal_h_def contains_def add_h_def dict_copy_def dict_setitem_def)
  from t1 t2 t3 t4 e show ?thesis by simp
qed


section \<open>Properties of the solver\<close>

lemma solve_no_error: "solve goals literals \<noteq> Inl e"
proof (induction goals literals rule: solve.induct)
  case (1 literals)
  show ?case by simp
next
  case (2 x b tail literals)
  then show ?case
    by (auto simp: add_literal_no_error split: sum.splits option.splits)
next
  case (3 l r tail literals)
  then show ?case by simp
next
  case (4 l r tail literals)
  then show ?case by (auto split: sum.splits option.splits)
qed

lemma solve_extends: "solve goals literals = Inr (Some a) \<Longrightarrow> literals \<subseteq>\<^sub>m a"
proof (induction goals literals rule: solve.induct)
  case (1 literals)
  then show ?case by simp
next
  case (2 x b tail literals)
  then show ?case
    by (auto split: sum.splits option.splits dest: add_literal_Some(2) intro: map_le_trans)
next
  case (3 l r tail literals)
  then show ?case by simp
next
  case (4 l r tail literals)
  then show ?case by (auto split: sum.splits option.splits)
qed

lemma solve_holds:
  "solve goals literals = Inr (Some a) \<Longrightarrow> completes val a \<Longrightarrow> g \<in> set goals \<Longrightarrow> holds val g"
proof (induction goals literals arbitrary: g rule: solve.induct)
  case (1 literals)
  then show ?case by simp
next
  case (2 x b tail literals)
  from "2.prems"(1) obtain result where
    r: "add_literal literals x b = Inr (Some result)" and s: "solve tail result = Inr (Some a)"
    by (auto split: sum.splits option.splits)
  show ?case
  proof (cases "g = Literal x b")
    case True
    have "result x = Some b" using r by (rule add_literal_Some(1))
    moreover have "result \<subseteq>\<^sub>m a" using s by (rule solve_extends)
    ultimately have "a x = Some b" by (auto simp: map_le_def dom_def)
    with "2.prems"(2) True show ?thesis by (simp add: completes_def)
  next
    case False
    with "2.prems"(3) have "g \<in> set tail" by simp
    with "2.IH" r s "2.prems"(2) show ?thesis by blast
  qed
next
  case (3 l r tail literals)
  then show ?case by auto
next
  case (4 l r tail literals)
  then show ?case by (auto split: sum.splits option.splits)
qed

lemma solve_dom:
  "solve goals literals = Inr (Some a) \<Longrightarrow> dom a \<subseteq> dom literals \<union> goals_vars goals"
proof (induction goals literals rule: solve.induct)
  case (1 literals)
  then show ?case by simp
next
  case (2 x b tail literals)
  from "2.prems"(1) obtain result where
    r: "add_literal literals x b = Inr (Some result)" and s: "solve tail result = Inr (Some a)"
    by (auto split: sum.splits option.splits)
  have "dom a \<subseteq> dom result \<union> goals_vars tail" using "2.IH" r s by blast
  moreover have "dom result = insert x (dom literals)" using r by (rule add_literal_Some(3))
  ultimately show ?case by (auto simp: goals_vars_def)
next
  case (3 l r tail literals)
  then show ?case by (auto simp: goals_vars_def)
next
  case (4 l r tail literals)
  then show ?case by (auto simp: goals_vars_def split: sum.splits option.splits)
qed

lemma solve_fuel_enough:
  "goals_nodes goals < n \<Longrightarrow> solve_fuel n goals literals = Some (solve goals literals)"
proof (induction goals literals arbitrary: n rule: solve.induct)
  case (1 literals)
  then show ?case by (cases n) auto
next
  case (2 x b tail literals)
  then obtain k where n: "n = Suc k" by (cases n) auto
  with "2.prems" have "goals_nodes tail < k" by (simp add: goals_nodes_def)
  with "2.IH" n show ?case by (auto split: sum.splits option.splits)
next
  case (3 l r tail literals)
  then obtain k where n: "n = Suc k" by (cases n) auto
  with "3.prems" have "goals_nodes (l # r # tail) < k" by (simp add: goals_nodes_def)
  with "3.IH" n show ?case by simp
next
  case (4 l r tail literals)
  then obtain k where n: "n = Suc k" by (cases n) auto
  with "4.prems" have "goals_nodes (l # tail) < k" "goals_nodes (r # tail) < k"
    by (simp_all add: goals_nodes_def)
  with "4.IH" n show ?case by (auto split: sum.splits option.splits)
qed

text \<open>
  Claim C1 (soundness). Whenever \<open>solve_one\<close> returns an assignment, every total valuation
  that gives the assigned variables their assigned values, whatever it gives the
  unassigned ones, makes the formula true under the standard semantics of
  \<open>Literal\<close>, \<open>And\<close> and \<open>Or\<close>.
\<close>

theorem solve_one_sound:
  "solve_one formula = Inr (Some a) \<Longrightarrow> completes val a \<Longrightarrow> holds val formula"
  unfolding solve_one_def by (rule solve_holds [where goals = "[formula]"]) simp_all

theorem solve_one_sound_witness:
  "solve_one (And (Literal ''x'' True) (Or (Literal ''x'' False) (Literal ''y'' False)))
     = Inr (Some [''x'' \<mapsto> True, ''y'' \<mapsto> False])
   \<and> completes (\<lambda>u. u = ''x'' \<or> u = ''z'') [''x'' \<mapsto> True, ''y'' \<mapsto> False]
   \<and> holds (\<lambda>u. u = ''x'' \<or> u = ''z'')
        (And (Literal ''x'' True) (Or (Literal ''x'' False) (Literal ''y'' False)))"
proof -
  have s: "solve_one (And (Literal ''x'' True) (Or (Literal ''x'' False) (Literal ''y'' False)))
             = Inr (Some [''x'' \<mapsto> True, ''y'' \<mapsto> False])"
    by (simp add: solve_one_def add_literal_def contains_def get_def add_def)
  have c: "completes (\<lambda>u. u = ''x'' \<or> u = ''z'') [''x'' \<mapsto> True, ''y'' \<mapsto> False]"
    by (simp add: completes_def)
  from solve_one_sound [OF s c] s c show ?thesis by blast
qed

text \<open>
  Claim C2 (termination). For every worklist and every store, \<open>solve\<close> returns: a call
  stack of depth one more than the number of nodes in the worklist is enough for the
  depth-bounded procedure to finish, and its result is the result of \<open>solve\<close>. Every
  activation makes at most two recursive calls, so a bounded depth bounds their number.
  The interpreter's own limit on the depth of the stack is not part of the model; the
  theorem says how deep a stack a given worklist needs.
\<close>

theorem solve_terminates:
  "solve_fuel (Suc (goals_nodes goals)) goals literals = Some (solve goals literals)"
  by (rule solve_fuel_enough) simp

theorem solve_terminates_witness:
  "solve_fuel (Suc (goals_nodes [Or (Literal ''x'' True) (Literal ''y'' True), Literal ''x'' False]))
     [Or (Literal ''x'' True) (Literal ''y'' True), Literal ''x'' False] Map.empty
   = Some (Inr (Some [''y'' \<mapsto> True, ''x'' \<mapsto> False]))"
  using solve_terminates
    [of "[Or (Literal ''x'' True) (Literal ''y'' True), Literal ''x'' False]" Map.empty]
  by (simp add: add_literal_def contains_def get_def add_def)

text \<open>
  Claim C3 (left-biased disjunction). With \<open>Or l r\<close> at the head of the worklist, \<open>solve\<close>
  first recurses on \<open>l\<close> followed by the tail with the given store. If that call returns a
  store, that store is the result and it is the only recursive call made. If it returns
  \<open>None\<close>, the result is that of the call on \<open>r\<close> followed by the tail with the same,
  original store, which is the second and last recursive call.
\<close>

theorem solve_or_left_biased:
  "(solve (l # tail) literals = Inr (Some left_side) \<longrightarrow>
      solve (Or l r # tail) literals = Inr (Some left_side)
      \<and> solve_calls (Or l r # tail) literals = [(l # tail, literals)])
   \<and> (solve (l # tail) literals = Inr None \<longrightarrow>
      solve (Or l r # tail) literals = solve (r # tail) literals
      \<and> solve_calls (Or l r # tail) literals = [(l # tail, literals), (r # tail, literals)])"
  by simp

theorem solve_or_left_biased_witness:
  "solve [Or (Literal ''a'' True) (Literal ''b'' True)] Map.empty = Inr (Some [''a'' \<mapsto> True])
   \<and> solve_calls [Or (Literal ''a'' True) (Literal ''b'' True)] Map.empty
       = [([Literal ''a'' True], Map.empty)]
   \<and> solve [Or (Literal ''a'' False) (Literal ''b'' True)] [''a'' \<mapsto> True]
       = Inr (Some [''a'' \<mapsto> True, ''b'' \<mapsto> True])
   \<and> solve_calls [Or (Literal ''a'' False) (Literal ''b'' True)] [''a'' \<mapsto> True]
       = [([Literal ''a'' False], [''a'' \<mapsto> True]), ([Literal ''b'' True], [''a'' \<mapsto> True])]"
proof -
  have h1: "solve (Literal ''a'' True # []) Map.empty = Inr (Some [''a'' \<mapsto> True])"
    by (simp add: add_literal_def contains_def add_def)
  have h2: "solve (Literal ''a'' False # []) [''a'' \<mapsto> True] = Inr None"
    by (simp add: add_literal_def contains_def get_def)
  have h3: "solve (Literal ''b'' True # []) [''a'' \<mapsto> True]
              = Inr (Some [''a'' \<mapsto> True, ''b'' \<mapsto> True])"
    by (simp add: add_literal_def contains_def add_def)
  note t1 = solve_or_left_biased
    [of "Literal ''a'' True" "[]" Map.empty "[''a'' \<mapsto> True]" "Literal ''b'' True",
     THEN conjunct1, rule_format, OF h1]
  note t2 = solve_or_left_biased
    [of "Literal ''a'' False" "[]" "[''a'' \<mapsto> True]" Map.empty "Literal ''b'' True",
     THEN conjunct2, rule_format, OF h2]
  from t1 t2 h3 show ?thesis by simp
qed

text \<open>
  Claim C5 (measure of the recursion), as stated: every recursive step lowers the number
  of \<open>And\<close>/\<open>Or\<close> nodes in the worklist by exactly one. A literal step does not lower it
  at all, and a disjunction step lowers it by two when the dropped side holds one
  connective.
\<close>

theorem solve_step_counterexample:
  "([], [''a'' \<mapsto> True]) \<in> set (solve_calls [Literal ''a'' True] Map.empty)
   \<and> goals_connectives ([] :: string expr list) + 1 \<noteq> goals_connectives [Literal ''a'' True]
   \<and> ([Literal ''a'' True], Map.empty)
       \<in> set (solve_calls
                [Or (Literal ''a'' True) (And (Literal ''b'' True) (Literal ''c'' True))]
                Map.empty)
   \<and> goals_connectives [Literal ''a'' True] + 1
       \<noteq> goals_connectives
            [Or (Literal ''a'' True) (And (Literal ''b'' True) (Literal ''c'' True))]"
  by (simp add: goals_connectives_def add_literal_def contains_def add_def)

text \<open>
  Claim C5, amended. Every recursive step of \<open>solve\<close> strictly lowers the number of nodes
  (literals and connectives) in the worklist. The number of \<open>And\<close>/\<open>Or\<close> nodes is unchanged
  by a literal step, which drops the head of the worklist; it is lowered by exactly one
  by a conjunction step; and a disjunction step lowers it by one plus the number of
  connectives in the side that the call leaves out.
\<close>

theorem solve_step_measure:
  "(goals', literals') \<in> set (solve_calls goals literals) \<Longrightarrow>
     goals_nodes goals' < goals_nodes goals
     \<and> (case goals of
          [] \<Rightarrow> False
        | Literal x b # tail \<Rightarrow>
            goals' = tail \<and> goals_connectives goals' = goals_connectives goals
        | And l r # tail \<Rightarrow>
            goals' = l # r # tail \<and> goals_connectives goals' + 1 = goals_connectives goals
        | Or l r # tail \<Rightarrow>
            (goals' = l # tail
               \<and> goals_connectives goals' + 1 + connectives r = goals_connectives goals)
            \<or> (goals' = r # tail
               \<and> goals_connectives goals' + 1 + connectives l = goals_connectives goals))"
proof (cases goals)
  case Nil
  assume "(goals', literals') \<in> set (solve_calls goals literals)"
  with Nil show ?thesis by simp
next
  case (Cons g tail)
  assume c: "(goals', literals') \<in> set (solve_calls goals literals)"
  show ?thesis
  proof (cases g)
    case (Literal x b)
    with Cons c show ?thesis
      by (auto simp: goals_nodes_def goals_connectives_def split: sum.splits option.splits)
  next
    case (And l r)
    with Cons c show ?thesis
      by (auto simp: goals_nodes_def goals_connectives_def)
  next
    case (Or l r)
    with Cons c show ?thesis
      by (auto simp: goals_nodes_def goals_connectives_def split: sum.splits option.splits)
  qed
qed

theorem solve_step_measure_witness:
  "([Literal ''b'' True, Literal ''c'' True], Map.empty)
     \<in> set (solve_calls [And (Literal ''b'' True) (Literal ''c'' True)] Map.empty)
   \<and> goals_nodes [Literal ''b'' True, Literal ''c'' True]
       < goals_nodes [And (Literal ''b'' True) (Literal ''c'' True)]
   \<and> goals_connectives [Literal ''b'' True, Literal ''c'' True] + 1
       = goals_connectives [And (Literal ''b'' True) (Literal ''c'' True)]"
proof -
  have m: "([Literal ''b'' True, Literal ''c'' True], Map.empty)
     \<in> set (solve_calls [And (Literal ''b'' True) (Literal ''c'' True)] Map.empty)"
    by simp
  from solve_step_measure [OF m] m show ?thesis by simp
qed

text \<open>
  Claim C6 (concrete left bias). On \<open>And(Or(Literal("a", True), Literal("b", False)),
  Literal("b", True))\<close> the result of \<open>solve_one\<close> is the assignment whose bindings are
  exactly \<open>a: True\<close> and \<open>b: True\<close>.
\<close>

theorem solve_one_left_bias_example:
  "solve_one (And (Or (Literal ''a'' True) (Literal ''b'' False)) (Literal ''b'' True))
     = Inr (Some [''a'' \<mapsto> True, ''b'' \<mapsto> True])"
  by (simp add: solve_one_def add_literal_def contains_def get_def add_def)

text \<open>
  Claim C8 (store extension). A store returned by \<open>solve\<close> keeps every binding of the
  store it was given, with the same value, and every variable it binds beyond those
  occurs in a goal of the worklist. So every variable bound in the result of \<open>solve_one\<close>
  occurs in the formula.
\<close>

theorem solve_store_extension:
  "(solve goals literals = Inr (Some a) \<longrightarrow>
      (\<forall>x b. literals x = Some b \<longrightarrow> a x = Some b)
      \<and> (\<forall>x. x \<in> dom a \<and> x \<notin> dom literals \<longrightarrow> x \<in> goals_vars goals))
   \<and> (solve_one formula = Inr (Some a') \<longrightarrow> dom a' \<subseteq> vars formula)"
proof (intro conjI impI)
  assume s: "solve goals literals = Inr (Some a)"
  from solve_extends [OF s]
  show "\<forall>x b. literals x = Some b \<longrightarrow> a x = Some b"
    by (auto simp: map_le_def dom_def)
  from solve_dom [OF s]
  show "\<forall>x. x \<in> dom a \<and> x \<notin> dom literals \<longrightarrow> x \<in> goals_vars goals"
    by blast
next
  assume "solve_one formula = Inr (Some a')"
  then have "solve [formula] Map.empty = Inr (Some a')" by (simp add: solve_one_def)
  from solve_dom [OF this] show "dom a' \<subseteq> vars formula"
    by (simp add: goals_vars_def)
qed

theorem solve_store_extension_witness:
  "solve [Literal ''q'' False] [''p'' \<mapsto> True] = Inr (Some [''p'' \<mapsto> True, ''q'' \<mapsto> False])
   \<and> [''p'' \<mapsto> True, ''q'' \<mapsto> False] ''p'' = Some True
   \<and> ''q'' \<in> goals_vars [Literal ''q'' False]
   \<and> solve_one (Or (Literal ''p'' True) (Literal ''q'' True)) = Inr (Some [''p'' \<mapsto> True])
   \<and> dom [''p'' \<mapsto> True] \<subseteq> vars (Or (Literal ''p'' True) (Literal ''q'' True))"
proof -
  have h1: "solve [Literal ''q'' False] [''p'' \<mapsto> True]
              = Inr (Some [''p'' \<mapsto> True, ''q'' \<mapsto> False])"
    by (simp add: add_literal_def contains_def add_def)
  have h2: "solve_one (Or (Literal ''p'' True) (Literal ''q'' True)) = Inr (Some [''p'' \<mapsto> True])"
    by (simp add: solve_one_def add_literal_def contains_def add_def)
  note t1 = solve_store_extension
    [of "[Literal ''q'' False]" "[''p'' \<mapsto> True]" "[''p'' \<mapsto> True, ''q'' \<mapsto> False]"
        "Literal ''p'' True" Map.empty,
     THEN conjunct1, rule_format, OF h1]
  note t2 = solve_store_extension
    [of "[]" Map.empty Map.empty
        "Or (Literal ''p'' True) (Literal ''q'' True)" "[''p'' \<mapsto> True]",
     THEN conjunct2, rule_format, OF h2]
  have p: "[''p'' \<mapsto> True] ''p'' = Some True" by simp
  have q: "''q'' \<in> dom [''p'' \<mapsto> True, ''q'' \<mapsto> False] \<and> ''q'' \<notin> dom [''p'' \<mapsto> True]" by simp
  from t1 have "[''p'' \<mapsto> True, ''q'' \<mapsto> False] ''p'' = Some True"
    and "''q'' \<in> goals_vars [Literal ''q'' False]"
    using p q by blast+
  with h1 h2 t2 show ?thesis by blast
qed

text \<open>
  Claim C9 (a missing key is an error, not a conflict). \<open>get\<close> on a variable that the store
  does not contain raises \<open>KeyError\<close>, and returns the recorded value otherwise. Neither
  \<open>add_literal\<close> nor \<open>solve\<close> ever raises: they reach \<open>get\<close> only after \<open>contains\<close> has
  answered yes, so the error never mixes with the returned \<open>None\<close>.
\<close>

theorem get_unbound_raises:
  "(\<not> contains m x \<longrightarrow> get m x = Inl KeyError)
   \<and> (contains m x \<longrightarrow> (\<exists>v. m x = Some v \<and> get m x = Inr v))
   \<and> add_literal m x b \<noteq> Inl e
   \<and> solve goals m \<noteq> Inl e"
  by (auto simp: contains_def get_def add_literal_no_error solve_no_error split: option.splits)

theorem get_unbound_raises_witness:
  "get [''p'' \<mapsto> True] ''q'' = Inl KeyError
   \<and> get [''p'' \<mapsto> True] ''p'' = Inr True
   \<and> add_literal [''p'' \<mapsto> True] ''q'' False \<noteq> Inl KeyError
   \<and> solve [Literal ''q'' True, Literal ''p'' False] [''p'' \<mapsto> True] \<noteq> Inl KeyError"
proof -
  have h1: "\<not> contains [''p'' \<mapsto> True] ''q''" by (simp add: contains_def)
  have h2: "contains [''p'' \<mapsto> True] ''p''" by (simp add: contains_def)
  note t = get_unbound_raises [of "[''p'' \<mapsto> True]" _ _ KeyError]
  note t1 = t [of "''q''" False "[Literal ''q'' True, Literal ''p'' False]"]
  note t2 = t [of "''p''" False "[]"]
  from t1 h1 have a: "get [''p'' \<mapsto> True] ''q'' = Inl KeyError" by blast
  from t2 h2 have b: "get [''p'' \<mapsto> True] ''p'' = Inr True" by auto
  from t1 a b show ?thesis by blast
qed


section \<open>Rendering\<close>

text \<open>
  Claim C10 (rendering). A positive literal renders as its variable name, a negative one
  as the name after \<open>!\<close>; \<open>And\<close> and \<open>Or\<close> render as an opening parenthesis, the left
  side, a space, the operator, a space, the right side and a closing parenthesis, the
  two operators being different strings of two characters. The formula
  \<open>And(Literal("p", True), Or(Literal("q", False), Literal("r", True)))\<close> renders as
  \<open>(p && (!q || r))\<close>.
\<close>

theorem str_expr_canonical:
  "str_expr (Literal x True) = x
   \<and> str_expr (Literal x False) = ''!'' @ x
   \<and> str_expr (And l r)
       = ''('' @ str_expr l @ '' '' @ And_op_string @ '' '' @ str_expr r @ '')''
   \<and> str_expr (Or l r)
       = ''('' @ str_expr l @ '' '' @ Or_op_string @ '' '' @ str_expr r @ '')''
   \<and> length And_op_string = 2 \<and> length Or_op_string = 2
   \<and> And_op_string \<noteq> Or_op_string
   \<and> str_expr (And (Literal ''p'' True) (Or (Literal ''q'' False) (Literal ''r'' True)))
       = ''(p && (!q || r))''"
  by (simp add: Binop_str_def And_op_string_def Or_op_string_def)


section \<open>Properties of the ground evaluator\<close>

lemma eval_expr_And_falls_through:
  "eval_expr l \<noteq> Some True \<Longrightarrow> eval_expr (BAnd l r) = None"
  by simp

lemma eval_expr_And_False_True: "eval_expr (BAnd (Bool False) (Bool True)) = None"
  by simp

text \<open>
  Claim C7 (the ground evaluator). \<open>eval_expr\<close> returns \<open>None\<close> on an \<open>And\<close> whose left
  operand does not evaluate to \<open>True\<close>, as the two lemmas above show. The truth value of
  its result does not always agree with the standard semantics, though: on
  \<open>Or(And(False, True), False)\<close> the left operand yields \<open>None\<close>, which is not equal to
  \<open>False\<close>, so the result is \<open>True\<close> where the expression is false.
\<close>

theorem eval_expr_truthiness_differs:
  "eval_expr (BAnd (Bool False) (Bool True)) = None
   \<and> eval_expr (BOr (BAnd (Bool False) (Bool True)) (Bool False)) = Some True
   \<and> truthy (eval_expr (BOr (BAnd (Bool False) (Bool True)) (Bool False)))
   \<and> \<not> ground_value (BOr (BAnd (Bool False) (Bool True)) (Bool False))"
  by (simp add: truthy_def)

end
